theory Spec2Isabelle
  imports
    Main
    "HOL-Library.Char_ord"
    "HOL-Library.List_Lexorder"
    "HOL-Library.Product_Lexorder"
    "HOL-Library.Multiset"
begin

section \<open>Rows and response models\<close>

text \<open>
  The repositories return one dictionary per row and the router builds a response model
  from each with \<^verbatim>\<open>Model(**row)\<close>. For teams, games and plays the selected columns
  are exactly the model's fields, so one record stands for the row and for the response.
  Columns the model declares \<^verbatim>\<open>Optional\<close> are options; the others are taken to be
  non-null, as the model requires them. The player query selects one column more than
  \<^verbatim>\<open>PlayerResponse\<close> declares (\<^verbatim>\<open>playerIsActive\<close>): the row is the
  response record extended by that field.
  A \<^verbatim>\<open>datetime\<close> in UTC is the number of seconds since 1970-01-01T00:00:00Z.
  Strings are compared bytewise, which stands for the collation of the store.
\<close>

record team =
  teamId :: int
  teamName :: string
  teamCity :: "string option"
  teamAbbrev :: "string option"
  teamIsActive :: bool
  teamLogoUrl :: "string option"

record player_response =
  playerId :: int
  playerTeamId :: "int option"
  playerFirstName :: string
  playerLastName :: string
  playerNumber :: "int option"
  playerPosition :: "string option"
  playerHeadshotUrl :: "string option"
  playerHomeCity :: "string option"
  playerHomeCountry :: "string option"

record player_row = player_response +
  playerIsActive :: bool

record game =
  gameId :: int
  gameSeason :: int
  gameType :: int
  gameDateTimeUtc :: int
  gameVenue :: "string option"
  gameHomeTeamId :: int
  gameAwayTeamId :: int
  gameState :: string
  gamePeriod :: "int option"
  gameClock :: "string option"
  gameHomeScore :: int
  gameAwayScore :: int
  gameHomeSOG :: int
  gameAwaySOG :: int
  homeTeamName :: "string option"
  homeTeamAbbrev :: "string option"
  awayTeamName :: "string option"
  awayTeamAbbrev :: "string option"

record play =
  playId :: int
  playGameId :: int
  playIndex :: int
  playTeamId :: "int option"
  playPrimaryPlayerId :: "int option"
  playLosingPlayerId :: "int option"
  playSecondaryPlayerId :: "int option"
  playTertiaryPlayerId :: "int option"
  playPeriod :: int
  playTime :: string
  playTimeReamaining :: string
  playType :: string
  playZone :: "int option"
  playXCoord :: "int option"
  playYCoord :: "int option"

text \<open>\<^verbatim>\<open>PlayerResponse(**player)\<close>: the declared fields are kept, the extra key is ignored.\<close>

definition PlayerResponse :: "player_row \<Rightarrow> player_response" where
  "PlayerResponse player = player_response.truncate player"

section \<open>Exceptions, payloads and responses\<close>

datatype exn =
    HTTPException nat string "(string \<times> string) list"
  | RequestValidationError "string list list"
  | RuntimeError
  | UnknownTimeZoneError
  | ValueError
  | DatabaseError

datatype payload =
    TeamList "team list"
  | GameList "game list"
  | PlayerList "player_response list"
  | OnePlayer player_response
  | GameDetailResponse game "play list"
  | HealthStatus "(string \<times> string) list"
  | Detail string
  | InvalidParameters string "string list list"

record response =
  status_code :: nat
  headers :: "(string \<times> string) list"
  content :: payload

section \<open>The store and the repositories\<close>

datatype repo_call =
    GetAllTeams
  | GetActiveTeams
  | GetGamesByDate string string
  | GetGameById int
  | GetPlayersByTeam int
  | GetPlayerById int
  | GetPlaysByGame int

text \<open>
  The store is the four tables and, for every repository call, whether opening the
  connection or executing the statement raises. Each repository function either raises
  or returns all the rows of its query.
\<close>

record store =
  tbl_teams :: "team list"
  tbl_players :: "player_row list"
  tbl_games :: "game list"
  tbl_plays :: "play list"
  raises :: "repo_call \<Rightarrow> bool"

definition run_query :: "store \<Rightarrow> repo_call \<Rightarrow> 'a \<Rightarrow> exn + 'a" where
  "run_query st c rows = (if raises st c then Inl DatabaseError else Inr rows)"

definition teams_repo_get_all_teams :: "store \<Rightarrow> exn + team list" where
  "teams_repo_get_all_teams st = run_query st GetAllTeams (sort_key teamName (tbl_teams st))"

definition teams_repo_get_active_teams :: "store \<Rightarrow> exn + team list" where
  "teams_repo_get_active_teams st =
     run_query st GetActiveTeams (sort_key teamName (filter teamIsActive (tbl_teams st)))"

definition players_repo_get_players_by_team :: "store \<Rightarrow> int \<Rightarrow> exn + player_row list" where
  "players_repo_get_players_by_team st team_id =
     run_query st (GetPlayersByTeam team_id)
       (sort_key (\<lambda>p. (playerLastName p, playerFirstName p))
          (filter (\<lambda>p. playerTeamId p = Some team_id) (tbl_players st)))"

definition players_repo_get_player_by_id :: "store \<Rightarrow> int \<Rightarrow> exn + player_row option" where
  "players_repo_get_player_by_id st player_id =
     run_query st (GetPlayerById player_id) (find (\<lambda>p. playerId p = player_id) (tbl_players st))"

definition plays_repo_get_plays_by_game :: "store \<Rightarrow> int \<Rightarrow> exn + play list" where
  "plays_repo_get_plays_by_game st game_id =
     run_query st (GetPlaysByGame game_id)
       (sort_key (\<lambda>p. (playPeriod p, playIndex p))
          (filter (\<lambda>p. playGameId p = game_id) (tbl_plays st)))"

text \<open>
  Modelled from the spec: \<^verbatim>\<open>games_repo.get_game_by_id\<close> is not among the sources.
  The spec gives \<^verbatim>\<open>getGameById(gameId) -> Game?\<close>, absence being "not found".
\<close>

definition games_repo_get_game_by_id :: "store \<Rightarrow> int \<Rightarrow> exn + game option" where
  "games_repo_get_game_by_id st game_id =
     run_query st (GetGameById game_id) (find (\<lambda>g. gameId g = game_id) (tbl_games st))"

section \<open>Calendar dates and time zones\<close>

text \<open>
  What the router uses of \<^verbatim>\<open>datetime\<close> and \<^verbatim>\<open>pytz\<close>: the civil date of an
  instant (proleptic Gregorian calendar, days counted from 1970-01-01), its rendering by
  \<^verbatim>\<open>strftime("%Y-%m-%d")\<close>, and a zone as the table of its UTC offsets: the offset in
  force before the first transition, then the instants (UTC seconds) at which a new offset
  starts, in ascending order.
\<close>

definition days_from_civil :: "int \<Rightarrow> int \<Rightarrow> int \<Rightarrow> int" where
  "days_from_civil y m d =
     (let y' = (if m \<le> 2 then y - 1 else y);
          era = y' div 400;
          yoe = y' - era * 400;
          mp = (m + 9) mod 12;
          doy = (153 * mp + 2) div 5 + d - 1;
          doe = yoe * 365 + yoe div 4 - yoe div 100 + doy
      in era * 146097 + doe - 719468)"

definition civil_from_days :: "int \<Rightarrow> int \<times> int \<times> int" where
  "civil_from_days z =
     (let z' = z + 719468;
          era = z' div 146097;
          doe = z' - era * 146097;
          yoe = (doe - doe div 1460 + doe div 36524 - doe div 146096) div 365;
          doy = doe - (365 * yoe + yoe div 4 - yoe div 100);
          mp = (5 * doy + 2) div 153;
          d = doy - (153 * mp + 2) div 5 + 1;
          m = (if mp < 10 then mp + 3 else mp - 9);
          y = yoe + era * 400
      in (if m \<le> 2 then y + 1 else y, m, d))"

definition digit_char :: "int \<Rightarrow> char" where
  "digit_char n = ''0123456789'' ! nat (n mod 10)"

definition pad2 :: "int \<Rightarrow> string" where
  "pad2 n = [digit_char (n div 10), digit_char n]"

definition pad4 :: "int \<Rightarrow> string" where
  "pad4 n = [digit_char (n div 1000), digit_char (n div 100), digit_char (n div 10), digit_char n]"

definition strftime_ymd :: "int \<times> int \<times> int \<Rightarrow> string" where
  "strftime_ymd ymd = (case ymd of (y, m, d) \<Rightarrow> pad4 y @ ''-'' @ pad2 m @ ''-'' @ pad2 d)"

record zone =
  base_offset :: int
  transitions :: "(int \<times> int) list"

fun offset_from :: "int \<Rightarrow> (int \<times> int) list \<Rightarrow> int \<Rightarrow> int" where
  "offset_from cur [] t = cur"
| "offset_from cur ((at, off) # rest) t = (if at \<le> t then offset_from off rest t else cur)"

definition utcoffset :: "zone \<Rightarrow> int \<Rightarrow> int" where
  "utcoffset z t = offset_from (base_offset z) (transitions z) t"

text \<open>\<^verbatim>\<open>datetime.now(tz)\<close> at the instant \<open>now\<close>, as a civil date: the wall clock of the zone.\<close>

definition datetime_now :: "zone \<Rightarrow> int \<Rightarrow> int \<times> int \<times> int" where
  "datetime_now tz now = civil_from_days ((now + utcoffset tz now) div 86400)"

section \<open>The environment of a request\<close>

text \<open>
  What the code reads from outside itself:
  \<^item> \<open>api_bearer_token\<close>: the result of \<^verbatim>\<open>get_env("API_BEARER_TOKEN")\<close>, \<open>None\<close>
    when it raises \<^verbatim>\<open>RuntimeError\<close> because the variable is not set;
  \<^item> \<open>not_authenticated\<close>: status, detail and headers of the \<^verbatim>\<open>HTTPException\<close> that
    the framework's \<^verbatim>\<open>HTTPBearer()\<close> scheme raises when a request presents no bearer
    credential (the scheme belongs to the framework, not to this repository);
  \<^item> \<open>tzdb\<close>: the zones \<^verbatim>\<open>pytz.timezone\<close> recognises;
  \<^item> \<open>decimal_digits\<close>: the code points beyond ASCII that the class \<^verbatim>\<open>\d\<close> of the
    pattern engine matches (the decimal digits of its Unicode tables), each as its UTF-8
    encoding;
  \<^item> \<open>db\<close>: the store.
  The clock reading of a request is an argument of its own.
\<close>

record env =
  api_bearer_token :: "string option"
  not_authenticated :: "nat \<times> string \<times> (string \<times> string) list"
  tzdb :: "string \<Rightarrow> zone option"
  decimal_digits :: "string \<Rightarrow> bool"
  db :: store

section \<open>Bearer token authentication\<close>

definition get_api_token :: "env \<Rightarrow> exn + string" where
  "get_api_token e = (case api_bearer_token e of None \<Rightarrow> Inl RuntimeError | Some t \<Rightarrow> Inr t)"

definition security :: "env \<Rightarrow> string option \<Rightarrow> exn + string" where
  "security e authorization =
     (case authorization of
        None \<Rightarrow> (case not_authenticated e of (sc, d, hs) \<Rightarrow> Inl (HTTPException sc d hs))
      | Some credentials \<Rightarrow> Inr credentials)"

definition verify_token :: "env \<Rightarrow> string \<Rightarrow> exn + string" where
  "verify_token e credentials =
     (case get_api_token e of
        Inl ex \<Rightarrow> Inl ex
      | Inr expected_token \<Rightarrow>
          if credentials \<noteq> expected_token
          then Inl (HTTPException 401 ''Invalid authentication credentials''
                      [(''WWW-Authenticate'', ''Bearer'')])
          else Inr credentials)"

section \<open>The games of a civil day\<close>

definition ascii_digit :: "char \<Rightarrow> bool" where
  "ascii_digit c = (c \<in> set ''0123456789'')"

definition digit_val :: "char \<Rightarrow> int" where
  "digit_val c = int (length (takeWhile (\<lambda>d. d \<noteq> c) ''0123456789''))"

fun number :: "int \<Rightarrow> string \<Rightarrow> int" where
  "number acc [] = acc"
| "number acc (c # cs) = number (10 * acc + digit_val c) cs"

text \<open>An ISO date written in ASCII: four digits, a hyphen, two digits, a hyphen, two digits.\<close>

definition iso_shape :: "string \<Rightarrow> bool" where
  "iso_shape s =
     (length s = 10 \<and> list_all ascii_digit (take 4 s) \<and> s ! 4 = CHR ''-'' \<and>
      list_all ascii_digit (take 2 (drop 5 s)) \<and> s ! 7 = CHR ''-'' \<and>
      list_all ascii_digit (drop 8 s))"

definition days_in_month :: "int \<Rightarrow> int \<Rightarrow> int" where
  "days_in_month y m =
     (if m = 2 then (if y mod 4 = 0 \<and> (y mod 100 \<noteq> 0 \<or> y mod 400 = 0) then 29 else 28)
      else if m = 4 \<or> m = 6 \<or> m = 9 \<or> m = 11 then 30 else 31)"

definition strptime_ymd :: "string \<Rightarrow> (int \<times> int \<times> int) option" where
  "strptime_ymd s =
     (if \<not> iso_shape s then None
      else let y = number 0 (take 4 s); m = number 0 (take 2 (drop 5 s));
               d = number 0 (drop 8 s)
           in if 1 \<le> y \<and> 1 \<le> m \<and> m \<le> 12 \<and> 1 \<le> d \<and> d \<le> days_in_month y m
              then Some (y, m, d) else None)"

text \<open>
  The UTC instant at which the wall clock of a zone shows the local time \<open>local\<close>
  (seconds of the civil calendar): the offset is read at the instant the first estimate
  gives. Where no transition lies within a day of \<open>local\<close> this is \<open>local\<close> minus the offset then in force.
\<close>

definition local_to_utc :: "zone \<Rightarrow> int \<Rightarrow> int" where
  "local_to_utc z local = local - utcoffset z (local - utcoffset z local)"

definition day_window :: "zone \<Rightarrow> int \<times> int \<times> int \<Rightarrow> int \<times> int" where
  "day_window z ymd =
     (case ymd of (y, m, d) \<Rightarrow>
        (local_to_utc z (days_from_civil y m d * 86400),
         local_to_utc z ((days_from_civil y m d + 1) * 86400)))"

definition in_window :: "int \<times> int \<Rightarrow> game \<Rightarrow> bool" where
  "in_window w g = (fst w \<le> gameDateTimeUtc g \<and> gameDateTimeUtc g < snd w)"

text \<open>
  Modelled from the spec: \<^verbatim>\<open>games_repo.get_games_by_date\<close> is not among the sources.
  The spec gives \<^verbatim>\<open>listGamesByLocalDate(isoDate, timezone)\<close>: every game whose UTC
  start timestamp falls within the civil-day window
  \<^verbatim>\<open>[isoDate 00:00:00, isoDate+1 00:00:00)\<close> as interpreted in the given timezone,
  the window converted to its UTC bounds and the UTC timestamp column filtered on; in
  practice chronological. A date that is no calendar date, or a zone that is not known,
  is an error of the call.
\<close>

definition games_repo_get_games_by_date :: "env \<Rightarrow> string \<Rightarrow> string \<Rightarrow> exn + game list" where
  "games_repo_get_games_by_date e date timezone =
     (case (strptime_ymd date, tzdb e timezone) of
        (Some ymd, Some z) \<Rightarrow>
          run_query (db e) (GetGamesByDate date timezone)
            (sort_key gameDateTimeUtc (filter (in_window (day_window z ymd)) (tbl_games (db e))))
      | _ \<Rightarrow> Inl ValueError)"

section \<open>The router\<close>

fun str_nat :: "nat \<Rightarrow> string" where
  "str_nat n = (if n < 10 then [digit_char (int n)] else str_nat (n div 10) @ [digit_char (int n)])"

declare str_nat.simps [simp del]

definition str_int :: "int \<Rightarrow> string" where
  "str_int i = (if i < 0 then CHR ''-'' # str_nat (nat (- i)) else str_nat (nat i))"

text \<open>
  Every endpoint returns what it raises or returns, and the repository calls it made, in
  order. A call that raises has been made.
\<close>

definition get_all_teams :: "env \<Rightarrow> (exn + payload) \<times> repo_call list" where
  "get_all_teams e =
     (case teams_repo_get_all_teams (db e) of
        Inr teams \<Rightarrow> (Inr (TeamList teams), [GetAllTeams])
      | Inl ex \<Rightarrow> (Inl (HTTPException 500 ''Failed to fetch teams'' []), [GetAllTeams]))"

definition get_active_teams :: "env \<Rightarrow> (exn + payload) \<times> repo_call list" where
  "get_active_teams e =
     (case teams_repo_get_active_teams (db e) of
        Inr teams \<Rightarrow> (Inr (TeamList teams), [GetActiveTeams])
      | Inl ex \<Rightarrow> (Inl (HTTPException 500 ''Failed to fetch active teams'' []), [GetActiveTeams]))"

definition pytz_timezone :: "env \<Rightarrow> string \<Rightarrow> exn + zone" where
  "pytz_timezone e name =
     (case tzdb e name of None \<Rightarrow> Inl UnknownTimeZoneError | Some z \<Rightarrow> Inr z)"

definition get_games_by_date ::
    "env \<Rightarrow> int \<Rightarrow> string option \<Rightarrow> string \<Rightarrow> (exn + payload) \<times> repo_call list" where
  "get_games_by_date e now date timezone =
     (case pytz_timezone e timezone of
        Inl UnknownTimeZoneError \<Rightarrow>
          (Inl (HTTPException 400
                  (''Invalid timezone: '' @ timezone @ ''. Must be a valid IANA timezone string.'')
                  []), [])
      | Inl ex \<Rightarrow>
          (Inl (HTTPException 500
                  (''Failed to fetch games for date '' @
                   (case date of None \<Rightarrow> ''None'' | Some d \<Rightarrow> d)) []), [])
      | Inr tz \<Rightarrow>
          (let date' = (case date of None \<Rightarrow> strftime_ymd (datetime_now tz now) | Some d \<Rightarrow> d)
           in case games_repo_get_games_by_date e date' timezone of
                Inr games \<Rightarrow> (Inr (GameList games), [GetGamesByDate date' timezone])
              | Inl ex \<Rightarrow>
                  (Inl (HTTPException 500 (''Failed to fetch games for date '' @ date') []),
                   [GetGamesByDate date' timezone])))"

definition get_players_by_team :: "env \<Rightarrow> int \<Rightarrow> (exn + payload) \<times> repo_call list" where
  "get_players_by_team e team_id =
     (case players_repo_get_players_by_team (db e) team_id of
        Inr players \<Rightarrow>
          (if players = [] then (Inr (PlayerList []), [GetPlayersByTeam team_id])
           else (Inr (PlayerList (map PlayerResponse players)), [GetPlayersByTeam team_id]))
      | Inl ex \<Rightarrow>
          (Inl (HTTPException 500 (''Failed to fetch players for team '' @ str_int team_id) []),
           [GetPlayersByTeam team_id]))"

definition get_player_by_id :: "env \<Rightarrow> int \<Rightarrow> (exn + payload) \<times> repo_call list" where
  "get_player_by_id e player_id =
     (case players_repo_get_player_by_id (db e) player_id of
        Inr None \<Rightarrow>
          (Inl (HTTPException 404 (''Player '' @ str_int player_id @ '' not found'') []),
           [GetPlayerById player_id])
      | Inr (Some player) \<Rightarrow> (Inr (OnePlayer (PlayerResponse player)), [GetPlayerById player_id])
      | Inl ex \<Rightarrow>
          (Inl (HTTPException 500 (''Failed to fetch player '' @ str_int player_id) []),
           [GetPlayerById player_id]))"

definition get_game_detail :: "env \<Rightarrow> int \<Rightarrow> (exn + payload) \<times> repo_call list" where
  "get_game_detail e game_id =
     (case games_repo_get_game_by_id (db e) game_id of
        Inr None \<Rightarrow>
          (Inl (HTTPException 404 (''Game '' @ str_int game_id @ '' not found'') []),
           [GetGameById game_id])
      | Inr (Some game) \<Rightarrow>
          (case plays_repo_get_plays_by_game (db e) game_id of
             Inr plays \<Rightarrow>
               (Inr (GameDetailResponse game plays), [GetGameById game_id, GetPlaysByGame game_id])
           | Inl ex \<Rightarrow>
               (Inl (HTTPException 500
                       (''Failed to fetch game detail for game '' @ str_int game_id) []),
                [GetGameById game_id, GetPlaysByGame game_id]))
      | Inl ex \<Rightarrow>
          (Inl (HTTPException 500 (''Failed to fetch game detail for game '' @ str_int game_id) []),
           [GetGameById game_id]))"

section \<open>The application\<close>

text \<open>
  A request names one of the declared GET routes, with its path and query parameters as
  the framework hands them over (an identifier in a path is an integer; a query parameter
  may be absent), and the bearer credential of its \<^verbatim>\<open>Authorization\<close> header, if it
  presents one.
\<close>

datatype route =
    Health
  | ApiTeams
  | ApiTeamsActive
  | ApiGames "string option" "string option"
  | ApiTeamPlayers int
  | ApiPlayer int
  | ApiGameDetail int

record request =
  route :: route
  bearer :: "string option"

definition health_check :: payload where
  "health_check =
     HealthStatus [(''status'', ''healthy''), (''service'', ''NHL Companion API''),
                   (''version'', ''1.0.0'')]"

definition validation_exception_handler :: "string list list \<Rightarrow> response" where
  "validation_exception_handler errors =
     \<lparr>status_code = 422, headers = [],
      content = InvalidParameters ''Invalid request parameters'' errors\<rparr>"

definition general_exception_handler :: response where
  "general_exception_handler =
     \<lparr>status_code = 500, headers = [], content = Detail ''An unexpected error occurred''\<rparr>"

text \<open>
  An \<^verbatim>\<open>HTTPException\<close> becomes the response it describes (the framework's own
  handler); the two handlers the application registers take the rest.
\<close>

definition exception_response :: "exn \<Rightarrow> response" where
  "exception_response ex =
     (case ex of
        HTTPException sc d hs \<Rightarrow> \<lparr>status_code = sc, headers = hs, content = Detail d\<rparr>
      | RequestValidationError errors \<Rightarrow> validation_exception_handler errors
      | _ \<Rightarrow> general_exception_handler)"

definition ok_response :: "payload \<Rightarrow> response" where
  "ok_response p = \<lparr>status_code = 200, headers = [], content = p\<rparr>"

definition timezone_param :: "string option \<Rightarrow> string" where
  "timezone_param tz = (case tz of None \<Rightarrow> ''America/New_York'' | Some s \<Rightarrow> s)"

text \<open>
  A Python \<^verbatim>\<open>str\<close> is a sequence of code points; a string here is its UTF-8 encoding.
  \<open>code_points\<close> gives the encoding of each code point in turn, by the length its first
  byte announces.
\<close>

definition utf8_len :: "char \<Rightarrow> nat" where
  "utf8_len c =
     (if \<not> digit7 c \<or> \<not> digit6 c then 1 else if \<not> digit5 c then 2
      else if \<not> digit4 c then 3 else 4)"

fun code_points :: "string \<Rightarrow> string list" where
  "code_points [] = []"
| "code_points (c # cs) =
     (c # take (utf8_len c - 1) cs) # code_points (drop (utf8_len c - 1) cs)"

text \<open>
  The pattern of the \<^verbatim>\<open>date\<close> query parameter, \<^verbatim>\<open>^\d{4}-\d{2}-\d{2}$\<close>: ten code
  points, of which the fifth and the eighth are the hyphen and the others are digits. The
  class \<^verbatim>\<open>\d\<close> is the ten ASCII digits and the other decimal digits of Unicode; the
  anchors admit nothing before or after.
\<close>

definition is_digit :: "env \<Rightarrow> string \<Rightarrow> bool" where
  "is_digit e c = (c \<in> set (map (\<lambda>d. [d]) ''0123456789'') \<or> decimal_digits e c)"

definition date_pattern :: "env \<Rightarrow> string \<Rightarrow> bool" where
  "date_pattern e s =
     (let cs = code_points s
      in length cs = 10 \<and> list_all (is_digit e) (take 4 cs) \<and> cs ! 4 = ''-'' \<and>
         list_all (is_digit e) (take 2 (drop 5 cs)) \<and> cs ! 7 = ''-'' \<and>
         list_all (is_digit e) (drop 8 cs))"

text \<open>The validation of the query parameters, done once the dependency has returned.\<close>

definition validate_params :: "env \<Rightarrow> route \<Rightarrow> exn + unit" where
  "validate_params e r =
     (case r of
        ApiGames (Some d) tz \<Rightarrow>
          if date_pattern e d then Inr ()
          else Inl (RequestValidationError [[''query'', ''date'']])
      | _ \<Rightarrow> Inr ())"

definition endpoint :: "env \<Rightarrow> int \<Rightarrow> route \<Rightarrow> (exn + payload) \<times> repo_call list" where
  "endpoint e now r =
     (case r of
        Health \<Rightarrow> (Inr health_check, [])
      | ApiTeams \<Rightarrow> get_all_teams e
      | ApiTeamsActive \<Rightarrow> get_active_teams e
      | ApiGames date tz \<Rightarrow> get_games_by_date e now date (timezone_param tz)
      | ApiTeamPlayers team_id \<Rightarrow> get_players_by_team e team_id
      | ApiPlayer player_id \<Rightarrow> get_player_by_id e player_id
      | ApiGameDetail game_id \<Rightarrow> get_game_detail e game_id)"

definition respond :: "(exn + payload) \<times> repo_call list \<Rightarrow> response \<times> repo_call list" where
  "respond out =
     (case fst out of
        Inl ex \<Rightarrow> (exception_response ex, snd out)
      | Inr p \<Rightarrow> (ok_response p, snd out))"

text \<open>
  One request, served at the clock reading \<open>now\<close>: the response and the repository calls
  made for it. Every route of the router depends on \<^verbatim>\<open>verify_token\<close>, whose argument
  the security scheme supplies; the health route has no dependency.
\<close>

definition serve :: "env \<Rightarrow> int \<Rightarrow> request \<Rightarrow> response \<times> repo_call list" where
  "serve e now rq =
     (if route rq = Health then respond (endpoint e now Health)
      else case security e (bearer rq) of
             Inl ex \<Rightarrow> (exception_response ex, [])
           | Inr credentials \<Rightarrow>
               (case verify_token e credentials of
                  Inl ex \<Rightarrow> (exception_response ex, [])
                | Inr token \<Rightarrow>
                    (case validate_params e (route rq) of
                       Inl ex \<Rightarrow> (exception_response ex, [])
                     | Inr u \<Rightarrow> respond (endpoint e now (route rq)))))"

text \<open>The requests of a run of the service, each with the clock reading at which it is served.\<close>

definition serve_all :: "env \<Rightarrow> (int \<times> request) list \<Rightarrow> (response \<times> repo_call list) list" where
  "serve_all e rqs = map (\<lambda>(now, rq). serve e now rq) rqs"

section \<open>A concrete service\<close>

text \<open>
  An excerpt of the zone database around the year 2024 (offsets in seconds), an excerpt
  of the decimal digits of Unicode (the Arabic-Indic digits U+0660 to U+0669 and the
  fullwidth digits U+FF10 to U+FF19), a small store, and an environment over them. Its
  security scheme answers a request without a credential as the framework does before
  version 0.122: 403, without a challenge.
\<close>

definition utc_seconds :: "int \<Rightarrow> int \<Rightarrow> int \<Rightarrow> int \<Rightarrow> int" where
  "utc_seconds y m d h = days_from_civil y m d * 86400 + h * 3600"

definition zone_excerpt :: "string \<Rightarrow> zone option" where
  "zone_excerpt name =
     (if name = ''UTC'' then Some \<lparr>base_offset = 0, transitions = []\<rparr>
      else if name = ''America/New_York'' then
        Some \<lparr>base_offset = - 18000,
              transitions = [(utc_seconds 2024 3 10 7, - 14400), (utc_seconds 2024 11 3 6, - 18000)]\<rparr>
      else if name = ''Pacific/Auckland'' then
        Some \<lparr>base_offset = 46800,
              transitions = [(utc_seconds 2024 4 6 14, 43200), (utc_seconds 2024 9 28 14, 46800)]\<rparr>
      else None)"

definition digit_excerpt :: "string \<Rightarrow> bool" where
  "digit_excerpt c =
     (c \<in> set (map (\<lambda>b. [CHR 0xD9, b])
                [CHR 0xA0, CHR 0xA1, CHR 0xA2, CHR 0xA3, CHR 0xA4,
                 CHR 0xA5, CHR 0xA6, CHR 0xA7, CHR 0xA8, CHR 0xA9]) \<or>
      c \<in> set (map (\<lambda>b. [CHR 0xEF, CHR 0xBC, b])
                [CHR 0x90, CHR 0x91, CHR 0x92, CHR 0x93, CHR 0x94,
                 CHR 0x95, CHR 0x96, CHR 0x97, CHR 0x98, CHR 0x99]))"

definition demo_team :: "int \<Rightarrow> string \<Rightarrow> bool \<Rightarrow> team" where
  "demo_team i name active =
     \<lparr>teamId = i, teamName = name, teamCity = None, teamAbbrev = None,
      teamIsActive = active, teamLogoUrl = None\<rparr>"

definition demo_player :: "int \<Rightarrow> int option \<Rightarrow> string \<Rightarrow> string \<Rightarrow> bool \<Rightarrow> player_row" where
  "demo_player i t first_name last_name active =
     \<lparr>playerId = i, playerTeamId = t, playerFirstName = first_name,
      playerLastName = last_name, playerNumber = None, playerPosition = None,
      playerHeadshotUrl = None, playerHomeCity = None, playerHomeCountry = None,
      playerIsActive = active\<rparr>"

definition demo_game :: "int \<Rightarrow> int \<Rightarrow> string \<Rightarrow> game" where
  "demo_game i start state =
     \<lparr>gameId = i, gameSeason = 2023, gameType = 2, gameDateTimeUtc = start,
      gameVenue = None, gameHomeTeamId = 10, gameAwayTeamId = 20, gameState = state,
      gamePeriod = None, gameClock = None, gameHomeScore = 0, gameAwayScore = 0,
      gameHomeSOG = 0, gameAwaySOG = 0, homeTeamName = None, homeTeamAbbrev = None,
      awayTeamName = None, awayTeamAbbrev = None\<rparr>"

definition demo_play :: "int \<Rightarrow> int \<Rightarrow> int \<Rightarrow> int \<Rightarrow> play" where
  "demo_play i g period idx =
     \<lparr>playId = i, playGameId = g, playIndex = idx, playTeamId = None,
      playPrimaryPlayerId = None, playLosingPlayerId = None, playSecondaryPlayerId = None,
      playTertiaryPlayerId = None, playPeriod = period, playTime = ''00:00'',
      playTimeReamaining = ''20:00'', playType = ''faceoff'', playZone = None,
      playXCoord = None, playYCoord = None\<rparr>"

definition demo_store :: store where
  "demo_store =
     \<lparr>tbl_teams = [demo_team 20 ''Rangers'' True, demo_team 10 ''Bruins'' True],
      tbl_players =
        [demo_player 3 (Some 10) ''Al'' ''Young'' True,
         demo_player 1 (Some 10) ''Zed'' ''Adams'' True,
         demo_player 4 (Some 20) ''Cy'' ''Brown'' True,
         demo_player 2 (Some 10) ''Bob'' ''Adams'' False],
      tbl_games =
        [demo_game 2 (utc_seconds 2024 1 16 3) ''scheduled'',
         demo_game 1 (utc_seconds 2024 1 15 23) ''final''],
      tbl_plays = [demo_play 103 1 2 1, demo_play 102 1 1 7, demo_play 101 1 1 3],
      raises = (\<lambda>c. False)\<rparr>"

definition demo_env :: env where
  "demo_env =
     \<lparr>api_bearer_token = Some ''s3cret'',
      not_authenticated = (403, ''Not authenticated'', []),
      tzdb = zone_excerpt,
      decimal_digits = digit_excerpt,
      db = demo_store\<rparr>"

section \<open>The bearer gate\<close>

lemma exception_response_http:
  "exception_response (HTTPException sc d hs) =
     \<lparr>status_code = sc, headers = hs, content = Detail d\<rparr>"
  by (simp add: exception_response_def)

text \<open>
  C1 fails as stated for a request that presents no credential. Such a request is
  rejected by the framework's security scheme before \<^verbatim>\<open>verify_token\<close> runs, with the
  scheme's own response: before version 0.122 of the framework that is 403, without a
  \<^verbatim>\<open>WWW-Authenticate\<close> header.
\<close>

theorem missing_credential_status_counterexample:
  "status_code (fst (serve demo_env 0 \<lparr>route = ApiTeams, bearer = None\<rparr>)) = 403 \<and>
   status_code (fst (serve demo_env 0 \<lparr>route = ApiTeams, bearer = None\<rparr>)) \<noteq> 401 \<and>
   headers (fst (serve demo_env 0 \<lparr>route = ApiTeams, bearer = None\<rparr>)) = []"
  by code_simp

text \<open>
  C1, amended. For a request to a route under \<^verbatim>\<open>/api\<close> whose bearer credential is
  missing or differs from the configured secret, no repository function is called. A
  credential that differs from the secret is answered 401 with the header
  \<^verbatim>\<open>WWW-Authenticate: Bearer\<close>; a missing credential is answered with the rejection
  of the security scheme, whatever the scheme makes it.
\<close>

theorem unauthenticated_request_rejected:
  assumes data: "route rq \<noteq> Health"
    and secret: "api_bearer_token e = Some secret"
    and bad: "bearer rq \<noteq> Some secret"
  shows "snd (serve e now rq) = [] \<and>
         (bearer rq \<noteq> None \<longrightarrow>
            fst (serve e now rq) =
              \<lparr>status_code = 401, headers = [(''WWW-Authenticate'', ''Bearer'')],
               content = Detail ''Invalid authentication credentials''\<rparr>) \<and>
         (bearer rq = None \<longrightarrow>
            fst (serve e now rq) =
              (case not_authenticated e of
                 (sc, d, hs) \<Rightarrow> \<lparr>status_code = sc, headers = hs, content = Detail d\<rparr>))"
proof (cases "bearer rq")
  case None
  obtain sc d hs where "not_authenticated e = (sc, d, hs)"
    by (cases "not_authenticated e") auto
  with None data show ?thesis
    by (simp add: serve_def security_def exception_response_http)
next
  case (Some c)
  with bad have "c \<noteq> secret" by simp
  with Some data secret show ?thesis
    by (simp add: serve_def security_def verify_token_def get_api_token_def
        exception_response_http)
qed

theorem unauthenticated_request_rejected_witness:
  "snd (serve demo_env 0 \<lparr>route = ApiTeams, bearer = Some ''guess''\<rparr>) = [] \<and>
   fst (serve demo_env 0 \<lparr>route = ApiTeams, bearer = Some ''guess''\<rparr>) =
     \<lparr>status_code = 401, headers = [(''WWW-Authenticate'', ''Bearer'')],
      content = Detail ''Invalid authentication credentials''\<rparr> \<and>
   snd (serve demo_env 0 \<lparr>route = ApiPlayer 1, bearer = None\<rparr>) = [] \<and>
   fst (serve demo_env 0 \<lparr>route = ApiPlayer 1, bearer = None\<rparr>) =
     \<lparr>status_code = 403, headers = [], content = Detail ''Not authenticated''\<rparr>"
  using unauthenticated_request_rejected
          [of "\<lparr>route = ApiTeams, bearer = Some ''guess''\<rparr>" demo_env "''s3cret''" 0]
        unauthenticated_request_rejected
          [of "\<lparr>route = ApiPlayer 1, bearer = None\<rparr>" demo_env "''s3cret''" 0]
  by (simp add: demo_env_def)

text \<open>
  C9. When the secret is not provisioned, a request that presents a credential to a route
  under \<^verbatim>\<open>/api\<close> gets the 500 response of the general exception handler, which is
  not the 401 of a wrong credential, and no repository function is called. (A request
  that presents no credential does not reach \<^verbatim>\<open>verify_token\<close>.)
\<close>

theorem missing_secret_is_server_error:
  assumes data: "route rq \<noteq> Health"
    and absent: "api_bearer_token e = None"
    and presented: "bearer rq = Some c"
  shows "fst (serve e now rq) = general_exception_handler \<and>
         status_code (fst (serve e now rq)) = 500 \<and>
         status_code (fst (serve e now rq)) \<noteq> 401 \<and>
         snd (serve e now rq) = []"
  using assms
  by (simp add: serve_def security_def verify_token_def get_api_token_def
      exception_response_def general_exception_handler_def)

theorem missing_secret_is_server_error_witness:
  "status_code (fst (serve (demo_env\<lparr>api_bearer_token := None\<rparr>) 0
      \<lparr>route = ApiTeams, bearer = Some ''s3cret''\<rparr>)) = 500 \<and>
   snd (serve (demo_env\<lparr>api_bearer_token := None\<rparr>) 0
      \<lparr>route = ApiTeams, bearer = Some ''s3cret''\<rparr>) = []"
  using missing_secret_is_server_error
          [of "\<lparr>route = ApiTeams, bearer = Some ''s3cret''\<rparr>"
              "demo_env\<lparr>api_bearer_token := None\<rparr>" "''s3cret''" 0]
  by (simp add: general_exception_handler_def)

section \<open>The games route: validation of its parameters\<close>

text \<open>
  C2 fails as stated: a date that does not match the pattern is rejected by the
  validation of the query parameters, and the handler the application registers for
  that answers 422, not 400.
\<close>

theorem malformed_date_status_counterexample:
  "\<not> date_pattern demo_env ''2024-1-5'' \<and>
   status_code (fst (serve demo_env 0
      \<lparr>route = ApiGames (Some ''2024-1-5'') None, bearer = Some ''s3cret''\<rparr>)) = 422 \<and>
   status_code (fst (serve demo_env 0
      \<lparr>route = ApiGames (Some ''2024-1-5'') None, bearer = Some ''s3cret''\<rparr>)) \<noteq> 400"
  by code_simp

text \<open>
  C2, amended. For a request to \<^verbatim>\<open>/api/games\<close> whose date is present and does not
  match four digits, hyphen, two digits, hyphen, two digits (a digit being any decimal
  digit the pattern's \<^verbatim>\<open>\d\<close> matches), no repository function is called; when its
  credential is accepted, the response is the 422 of the validation handler, naming the
  query parameter.
\<close>

theorem malformed_date_rejected:
  assumes r: "route rq = ApiGames (Some d) tz"
    and bad: "\<not> date_pattern e d"
  shows "snd (serve e now rq) = [] \<and>
         (api_bearer_token e = Some secret \<and> bearer rq = Some secret \<longrightarrow>
            fst (serve e now rq) = validation_exception_handler [[''query'', ''date'']] \<and>
            status_code (fst (serve e now rq)) = 422)"
  using r bad
  by (simp add: serve_def security_def verify_token_def get_api_token_def validate_params_def
      exception_response_def validation_exception_handler_def
      split: option.splits sum.splits prod.splits)

theorem malformed_date_rejected_witness:
  "\<not> date_pattern demo_env ''15/01/2024'' \<and>
   snd (serve demo_env 0
      \<lparr>route = ApiGames (Some ''15/01/2024'') (Some ''UTC''), bearer = Some ''s3cret''\<rparr>) = [] \<and>
   status_code (fst (serve demo_env 0
      \<lparr>route = ApiGames (Some ''15/01/2024'') (Some ''UTC''), bearer = Some ''s3cret''\<rparr>)) = 422"
proof -
  have bad: "\<not> date_pattern demo_env ''15/01/2024''"
    by code_simp
  have tok: "api_bearer_token demo_env = Some ''s3cret''"
    by (simp add: demo_env_def)
  show ?thesis
    using malformed_date_rejected
            [of "\<lparr>route = ApiGames (Some ''15/01/2024'') (Some ''UTC''), bearer = Some ''s3cret''\<rparr>"
                "''15/01/2024''" "Some ''UTC''" demo_env 0 "''s3cret''"]
          bad tok
    by (simp add: validation_exception_handler_def)
qed

text \<open>
  A date written with digits beyond ASCII matches the pattern and reaches the games
  repository: the year 2024 in fullwidth digits, then \<^verbatim>\<open>-01-15\<close>.
\<close>

lemma fullwidth_date_reaches_repository:
  "date_pattern demo_env
     ([CHR 0xEF, CHR 0xBC, CHR 0x92, CHR 0xEF, CHR 0xBC, CHR 0x90,
       CHR 0xEF, CHR 0xBC, CHR 0x92, CHR 0xEF, CHR 0xBC, CHR 0x94] @ ''-01-15'') \<and>
   snd (serve demo_env 0
      \<lparr>route = ApiGames
         (Some ([CHR 0xEF, CHR 0xBC, CHR 0x92, CHR 0xEF, CHR 0xBC, CHR 0x90,
                 CHR 0xEF, CHR 0xBC, CHR 0x92, CHR 0xEF, CHR 0xBC, CHR 0x94] @ ''-01-15''))
         (Some ''UTC''),
       bearer = Some ''s3cret''\<rparr>) =
     [GetGamesByDate
        ([CHR 0xEF, CHR 0xBC, CHR 0x92, CHR 0xEF, CHR 0xBC, CHR 0x90,
          CHR 0xEF, CHR 0xBC, CHR 0x92, CHR 0xEF, CHR 0xBC, CHR 0x94] @ ''-01-15'') ''UTC'']"
  by code_simp

text \<open>
  C5. For a request to \<^verbatim>\<open>/api/games\<close> whose timezone is not a zone
  \<^verbatim>\<open>pytz\<close> recognises, no repository function is called; once the request has passed
  the bearer gate and the validation of the date, the response is 400 and names the
  timezone.
\<close>

theorem unknown_timezone_rejected:
  assumes r: "route rq = ApiGames date tz"
    and unknown: "tzdb e (timezone_param tz) = None"
  shows "snd (serve e now rq) = [] \<and>
         (api_bearer_token e = Some secret \<and> bearer rq = Some secret \<and>
          (case date of None \<Rightarrow> True | Some d \<Rightarrow> date_pattern e d) \<longrightarrow>
            status_code (fst (serve e now rq)) = 400 \<and>
            content (fst (serve e now rq)) =
              Detail (''Invalid timezone: '' @ timezone_param tz @
                      ''. Must be a valid IANA timezone string.''))"
  using r unknown
  by (simp add: serve_def security_def verify_token_def get_api_token_def validate_params_def
      endpoint_def get_games_by_date_def pytz_timezone_def respond_def exception_response_def
      split: option.splits sum.splits prod.splits)

theorem unknown_timezone_rejected_witness:
  "tzdb demo_env (timezone_param (Some ''Not/AZone'')) = None \<and>
   snd (serve demo_env 0
      \<lparr>route = ApiGames (Some ''2024-01-15'') (Some ''Not/AZone''), bearer = Some ''s3cret''\<rparr>) = [] \<and>
   status_code (fst (serve demo_env 0
      \<lparr>route = ApiGames (Some ''2024-01-15'') (Some ''Not/AZone''), bearer = Some ''s3cret''\<rparr>)) = 400"
proof -
  have unknown: "tzdb demo_env (timezone_param (Some ''Not/AZone'')) = None"
    by code_simp
  have tok: "api_bearer_token demo_env = Some ''s3cret''"
    by (simp add: demo_env_def)
  have shaped: "date_pattern demo_env ''2024-01-15''"
    by code_simp
  show ?thesis
    using unknown_timezone_rejected
            [of "\<lparr>route = ApiGames (Some ''2024-01-15'') (Some ''Not/AZone''), bearer = Some ''s3cret''\<rparr>"
                "Some ''2024-01-15''" "Some ''Not/AZone''" demo_env 0 "''s3cret''"]
          unknown tok shaped
    by simp
qed

section \<open>The games route: today in the zone of the request\<close>

lemma digit_char_ascii: "digit_char n \<in> set ''0123456789''"
  unfolding digit_char_def by (rule nth_mem) simp

lemma utf8_len_digit_char: "utf8_len (digit_char n) = 1"
  using digit_char_ascii [of n] by (auto simp: utf8_len_def)

lemma is_digit_digit_char: "is_digit e [digit_char n]"
  using digit_char_ascii [of n] by (simp add: is_digit_def)

lemma code_points_single: "utf8_len c = 1 \<Longrightarrow> code_points (c # cs) = [c] # code_points cs"
  by simp

lemma utf8_len_hyphen: "utf8_len CHR ''-'' = 1"
  by (simp add: utf8_len_def)

lemma code_points_strftime:
  "code_points (strftime_ymd (y, m, d)) =
     [[digit_char (y div 1000)], [digit_char (y div 100)], [digit_char (y div 10)],
      [digit_char y], ''-'', [digit_char (m div 10)], [digit_char m], ''-'',
      [digit_char (d div 10)], [digit_char d]]"
  by (simp add: strftime_ymd_def pad4_def pad2_def code_points_single utf8_len_digit_char
      utf8_len_hyphen del: code_points.simps(2))

lemma date_pattern_strftime: "date_pattern e (strftime_ymd ymd)"
proof (cases ymd)
  case (fields y m d)
  show ?thesis
    unfolding fields date_pattern_def Let_def code_points_strftime
    by (simp add: is_digit_digit_char)
qed

lemma snd_respond: "snd (respond out) = snd out"
  by (simp add: respond_def split: sum.splits)

text \<open>
  C6. In any run of the service, a request to \<^verbatim>\<open>/api/games\<close> without a date, served
  at the instant \<open>now\<close>, asks the games repository for the civil date that the zone of the
  request shows at \<open>now\<close> (the instant shifted by the zone's offset at that instant), and is
  answered as the request that names this date is. The date depends on the clock reading
  of this request alone: nothing is kept from the requests before it.
\<close>

theorem today_in_request_zone:
  assumes k: "k < length rqs"
    and at: "rqs ! k = (now, rq)"
    and r: "route rq = ApiGames None tz"
    and auth: "api_bearer_token e = Some secret" "bearer rq = Some secret"
    and known: "tzdb e (timezone_param tz) = Some z"
  shows "snd (serve_all e rqs ! k) =
           [GetGamesByDate (strftime_ymd (civil_from_days ((now + utcoffset z now) div 86400)))
              (timezone_param tz)] \<and>
         serve_all e rqs ! k =
           serve e now (rq\<lparr>route := ApiGames
              (Some (strftime_ymd (civil_from_days ((now + utcoffset z now) div 86400)))) tz\<rparr>)"
proof -
  let ?today = "strftime_ymd (civil_from_days ((now + utcoffset z now) div 86400))"
  have s: "serve_all e rqs ! k = serve e now rq"
    using k at by (simp add: serve_all_def)
  have g: "get_games_by_date e now None (timezone_param tz) =
           get_games_by_date e now (Some ?today) (timezone_param tz)"
    using known by (simp add: get_games_by_date_def pytz_timezone_def datetime_now_def)
  have c: "snd (get_games_by_date e now (Some ?today) (timezone_param tz)) =
           [GetGamesByDate ?today (timezone_param tz)]"
    using known by (simp add: get_games_by_date_def pytz_timezone_def Let_def split: sum.splits)
  have v: "validate_params e (ApiGames (Some ?today) tz) = Inr ()"
    by (simp add: validate_params_def date_pattern_strftime)
  have 1: "serve e now rq = respond (get_games_by_date e now None (timezone_param tz))"
    using r auth
    by (simp add: serve_def security_def verify_token_def get_api_token_def validate_params_def
        endpoint_def)
  have 2: "serve e now (rq\<lparr>route := ApiGames (Some ?today) tz\<rparr>) =
           respond (get_games_by_date e now (Some ?today) (timezone_param tz))"
    using auth v
    by (simp add: serve_def security_def verify_token_def get_api_token_def endpoint_def)
  show ?thesis
    using s g c 1 2 by (simp add: snd_respond)
qed

text \<open>
  At 2024-01-15T12:00:00Z the date in Auckland is the 16th, in UTC the 15th; served one
  after the other with the clock a day on, the same request names the 17th.
\<close>

theorem today_in_request_zone_witness:
  "snd (serve_all demo_env
          [(utc_seconds 2024 1 15 12,
            \<lparr>route = ApiGames None (Some ''Pacific/Auckland''), bearer = Some ''s3cret''\<rparr>),
           (utc_seconds 2024 1 16 12,
            \<lparr>route = ApiGames None (Some ''Pacific/Auckland''), bearer = Some ''s3cret''\<rparr>)] ! 0) =
     [GetGamesByDate ''2024-01-16'' ''Pacific/Auckland''] \<and>
   snd (serve_all demo_env
          [(utc_seconds 2024 1 15 12,
            \<lparr>route = ApiGames None (Some ''Pacific/Auckland''), bearer = Some ''s3cret''\<rparr>),
           (utc_seconds 2024 1 16 12,
            \<lparr>route = ApiGames None (Some ''Pacific/Auckland''), bearer = Some ''s3cret''\<rparr>)] ! 1) =
     [GetGamesByDate ''2024-01-17'' ''Pacific/Auckland''] \<and>
   strftime_ymd (datetime_now \<lparr>base_offset = 0, transitions = []\<rparr> (utc_seconds 2024 1 15 12)) =
     ''2024-01-15''"
proof -
  let ?rq = "\<lparr>route = ApiGames None (Some ''Pacific/Auckland''), bearer = Some ''s3cret''\<rparr>"
  let ?rqs = "[(utc_seconds 2024 1 15 12, ?rq), (utc_seconds 2024 1 16 12, ?rq)]"
  let ?z = "\<lparr>base_offset = 46800,
             transitions = [(utc_seconds 2024 4 6 14, 43200), (utc_seconds 2024 9 28 14, 46800)]\<rparr>"
  have tok: "api_bearer_token demo_env = Some ''s3cret''"
    by (simp add: demo_env_def)
  have known: "tzdb demo_env (timezone_param (Some ''Pacific/Auckland'')) = Some ?z"
    by code_simp
  have d0: "strftime_ymd (civil_from_days
              ((utc_seconds 2024 1 15 12 + utcoffset ?z (utc_seconds 2024 1 15 12)) div 86400)) =
            ''2024-01-16''"
    by code_simp
  have d1: "strftime_ymd (civil_from_days
              ((utc_seconds 2024 1 16 12 + utcoffset ?z (utc_seconds 2024 1 16 12)) div 86400)) =
            ''2024-01-17''"
    by code_simp
  have u: "strftime_ymd (datetime_now \<lparr>base_offset = 0, transitions = []\<rparr>
              (utc_seconds 2024 1 15 12)) = ''2024-01-15''"
    by code_simp
  have tzp: "timezone_param (Some ''Pacific/Auckland'') = ''Pacific/Auckland''"
    by (simp add: timezone_param_def)
  have r: "route ?rq = ApiGames None (Some ''Pacific/Auckland'')"
    and b: "bearer ?rq = Some ''s3cret''"
    by simp_all
  have k0: "0 < length ?rqs" and k1: "1 < length ?rqs"
    by simp_all
  have at0: "?rqs ! 0 = (utc_seconds 2024 1 15 12, ?rq)"
    and at1: "?rqs ! 1 = (utc_seconds 2024 1 16 12, ?rq)"
    by simp_all
  have w0: "snd (serve_all demo_env ?rqs ! 0) = [GetGamesByDate ''2024-01-16'' ''Pacific/Auckland'']"
    using conjunct1 [OF today_in_request_zone [OF k0 at0 r tok b known]]
    unfolding d0 tzp .
  have w1: "snd (serve_all demo_env ?rqs ! 1) = [GetGamesByDate ''2024-01-17'' ''Pacific/Auckland'']"
    using conjunct1 [OF today_in_request_zone [OF k1 at1 r tok b known]]
    unfolding d1 tzp .
  show ?thesis
    using w0 w1 u by blast
qed

section \<open>Players\<close>

lemma PlayerResponse_active: "PlayerResponse (p\<lparr>playerIsActive := b\<rparr>) = PlayerResponse p"
  by (simp add: PlayerResponse_def player_response.defs)

lemma insort_key_map:
  assumes "\<And>x. k (g x) = k x"
  shows "insort_key k (g x) (map g ys) = map g (insort_key k x ys)"
  using assms by (induction ys) simp_all

lemma sort_key_map:
  assumes "\<And>x. k (g x) = k x"
  shows "sort_key k (map g xs) = map g (sort_key k xs)"
  using assms by (induction xs) (simp_all add: insort_key_map)

lemma filter_map_inv:
  assumes "\<And>x. P (g x) = P x"
  shows "filter P (map g xs) = map g (filter P xs)"
  using assms by (induction xs) simp_all

lemma find_map_inv:
  assumes "\<And>x. P (g x) = P x"
  shows "find P (map g xs) = map_option g (find P xs)"
  using assms by (induction xs) simp_all

lemma serve_authenticated:
  assumes "route rq \<noteq> Health" "api_bearer_token e = Some secret" "bearer rq = Some secret"
  shows "serve e now rq =
           (case validate_params e (route rq) of
              Inl ex \<Rightarrow> (exception_response ex, [])
            | Inr u \<Rightarrow> respond (endpoint e now (route rq)))"
  using assms by (simp add: serve_def security_def verify_token_def get_api_token_def)

lemma serve_cong:
  assumes tok: "api_bearer_token e' = api_bearer_token e"
    and scheme: "not_authenticated e' = not_authenticated e"
    and digits: "decimal_digits e' = decimal_digits e"
    and run: "endpoint e' now' (route rq) = endpoint e now (route rq)"
  shows "serve e' now' rq = serve e now rq"
proof (cases "route rq = Health")
  case True
  then show ?thesis
    by (simp add: serve_def endpoint_def)
next
  case False
  have sec: "security e' a = security e a" for a
    using scheme by (simp add: security_def split: option.splits)
  have ver: "verify_token e' c = verify_token e c" for c
    using tok by (simp add: verify_token_def get_api_token_def)
  have "is_digit e' = is_digit e"
    using digits by (simp add: is_digit_def fun_eq_iff)
  then have val: "validate_params e' r = validate_params e r" for r
    by (simp add: validate_params_def date_pattern_def split: route.splits option.splits)
  show ?thesis
    using False run by (simp add: serve_def sec ver val split: sum.splits)
qed

text \<open>
  C7. When the query does not raise, \<^verbatim>\<open>get_players_by_team\<close> returns the rows of the
  team, each once, in ascending order of last name, then first name, and the route answers
  200 with them; when no player row carries the team identifier (whether or not a team
  has it), the rows are the empty list and the answer is 200 with an empty list.
\<close>

theorem players_by_team_ordered:
  assumes r: "route rq = ApiTeamPlayers team_id"
    and auth: "api_bearer_token e = Some secret" "bearer rq = Some secret"
    and ok: "\<not> raises (db e) (GetPlayersByTeam team_id)"
  shows "\<exists>players.
           players_repo_get_players_by_team (db e) team_id = Inr players \<and>
           sorted (map (\<lambda>p. (playerLastName p, playerFirstName p)) players) \<and>
           mset players = mset (filter (\<lambda>p. playerTeamId p = Some team_id) (tbl_players (db e))) \<and>
           serve e now rq =
             (ok_response (PlayerList (map PlayerResponse players)), [GetPlayersByTeam team_id]) \<and>
           ((\<forall>p \<in> set (tbl_players (db e)). playerTeamId p \<noteq> Some team_id) \<longrightarrow>
              players = [] \<and>
              serve e now rq = (ok_response (PlayerList []), [GetPlayersByTeam team_id]))"
proof -
  let ?mine = "filter (\<lambda>p. playerTeamId p = Some team_id) (tbl_players (db e))"
  let ?players = "sort_key (\<lambda>p. (playerLastName p, playerFirstName p)) ?mine"
  have repo: "players_repo_get_players_by_team (db e) team_id = Inr ?players"
    using ok by (simp add: players_repo_get_players_by_team_def run_query_def)
  have ordered: "sorted (map (\<lambda>p. (playerLastName p, playerFirstName p)) ?players)"
    by (rule sorted_sort_key)
  have same: "mset ?players = mset ?mine"
    by simp
  have "route rq \<noteq> Health"
    using r by simp
  then have "serve e now rq = respond (get_players_by_team e team_id)"
    using r auth by (simp add: serve_authenticated validate_params_def endpoint_def)
  then have answer: "serve e now rq =
      (ok_response (PlayerList (map PlayerResponse ?players)), [GetPlayersByTeam team_id])"
    using repo by (simp add: get_players_by_team_def respond_def)
  have none: "?players = []" if "\<forall>p \<in> set (tbl_players (db e)). playerTeamId p \<noteq> Some team_id"
  proof -
    from that have "?mine = []"
      by (simp add: filter_empty_conv)
    then show ?thesis by simp
  qed
  show ?thesis
    using repo ordered same answer none by (intro exI [of _ ?players]) auto
qed

theorem players_by_team_ordered_witness:
  "sorted (map (\<lambda>p. (playerLastName p, playerFirstName p))
      [demo_player 2 (Some 10) ''Bob'' ''Adams'' False,
       demo_player 1 (Some 10) ''Zed'' ''Adams'' True,
       demo_player 3 (Some 10) ''Al'' ''Young'' True]) \<and>
   serve demo_env 0 \<lparr>route = ApiTeamPlayers 10, bearer = Some ''s3cret''\<rparr> =
     (ok_response (PlayerList (map PlayerResponse
        [demo_player 2 (Some 10) ''Bob'' ''Adams'' False,
         demo_player 1 (Some 10) ''Zed'' ''Adams'' True,
         demo_player 3 (Some 10) ''Al'' ''Young'' True])), [GetPlayersByTeam 10]) \<and>
   serve demo_env 0 \<lparr>route = ApiTeamPlayers 77, bearer = Some ''s3cret''\<rparr> =
     (ok_response (PlayerList []), [GetPlayersByTeam 77])"
proof -
  let ?rows = "[demo_player 2 (Some 10) ''Bob'' ''Adams'' False,
                demo_player 1 (Some 10) ''Zed'' ''Adams'' True,
                demo_player 3 (Some 10) ''Al'' ''Young'' True]"
  have tok: "api_bearer_token demo_env = Some ''s3cret''"
    by (simp add: demo_env_def)
  have up: "\<not> raises (db demo_env) c" for c
    by (simp add: demo_env_def demo_store_def)
  have rows: "players_repo_get_players_by_team (db demo_env) 10 = Inr ?rows"
    by code_simp
  have absent: "\<forall>p \<in> set (tbl_players (db demo_env)). playerTeamId p \<noteq> Some 77"
    by code_simp
  from players_by_team_ordered
         [of "\<lparr>route = ApiTeamPlayers 10, bearer = Some ''s3cret''\<rparr>" 10 demo_env "''s3cret''" 0]
       tok up rows
  have a: "sorted (map (\<lambda>p. (playerLastName p, playerFirstName p)) ?rows) \<and>
           serve demo_env 0 \<lparr>route = ApiTeamPlayers 10, bearer = Some ''s3cret''\<rparr> =
             (ok_response (PlayerList (map PlayerResponse ?rows)), [GetPlayersByTeam 10])"
    by auto
  from players_by_team_ordered
         [of "\<lparr>route = ApiTeamPlayers 77, bearer = Some ''s3cret''\<rparr>" 77 demo_env "''s3cret''" 0]
       tok up absent
  have b: "serve demo_env 0 \<lparr>route = ApiTeamPlayers 77, bearer = Some ''s3cret''\<rparr> =
             (ok_response (PlayerList []), [GetPlayersByTeam 77])"
    by auto
  show ?thesis
    using a b by blast
qed

text \<open>
  C10. Two stores whose player rows differ only in \<^verbatim>\<open>playerIsActive\<close> (the one
  obtained from the other by setting the flag of every row to any value) give the same
  answer, and the same repository calls, to \<^verbatim>\<open>/api/players/{playerId}\<close> and to
  \<^verbatim>\<open>/api/teams/{teamId}/players\<close>.
\<close>

theorem active_flag_not_in_response:
  assumes r: "route rq = ApiPlayer i \<or> route rq = ApiTeamPlayers i"
  shows "serve (e\<lparr>db := (db e)\<lparr>tbl_players :=
                    map (\<lambda>p. p\<lparr>playerIsActive := f p\<rparr>) (tbl_players (db e))\<rparr>\<rparr>) now rq =
         serve e now rq"
proof -
  let ?g = "\<lambda>p::player_row. p\<lparr>playerIsActive := f p\<rparr>"
  let ?st = "(db e)\<lparr>tbl_players := map ?g (tbl_players (db e))\<rparr>"
  let ?e = "e\<lparr>db := ?st\<rparr>"
  have one: "players_repo_get_player_by_id ?st i =
             map_sum id (map_option ?g) (players_repo_get_player_by_id (db e) i)"
    by (simp add: players_repo_get_player_by_id_def run_query_def find_map_inv)
  have many: "players_repo_get_players_by_team ?st i =
              map_sum id (map ?g) (players_repo_get_players_by_team (db e) i)"
    by (simp add: players_repo_get_players_by_team_def run_query_def filter_map_inv sort_key_map)
  have p: "get_player_by_id ?e i = get_player_by_id e i"
    using one
    by (cases "players_repo_get_player_by_id (db e) i")
       (auto simp: get_player_by_id_def PlayerResponse_active split: option.splits)
  have t: "get_players_by_team ?e i = get_players_by_team e i"
    using many
    by (cases "players_repo_get_players_by_team (db e) i")
       (auto simp: get_players_by_team_def PlayerResponse_active)
  have "endpoint ?e now (route rq) = endpoint e now (route rq)"
    using r p t by (auto simp: endpoint_def)
  then show ?thesis
    by (intro serve_cong) simp_all
qed

theorem active_flag_not_in_response_witness:
  "serve (demo_env\<lparr>db := (db demo_env)\<lparr>tbl_players :=
       map (\<lambda>p. p\<lparr>playerIsActive := \<not> playerIsActive p\<rparr>) (tbl_players (db demo_env))\<rparr>\<rparr>)
     0 \<lparr>route = ApiPlayer 2, bearer = Some ''s3cret''\<rparr> =
   serve demo_env 0 \<lparr>route = ApiPlayer 2, bearer = Some ''s3cret''\<rparr> \<and>
   content (fst (serve demo_env 0 \<lparr>route = ApiPlayer 2, bearer = Some ''s3cret''\<rparr>)) =
     OnePlayer (PlayerResponse (demo_player 2 (Some 10) ''Bob'' ''Adams'' False))"
proof -
  have shown: "content (fst (serve demo_env 0 \<lparr>route = ApiPlayer 2, bearer = Some ''s3cret''\<rparr>)) =
     OnePlayer (PlayerResponse (demo_player 2 (Some 10) ''Bob'' ''Adams'' False))"
    by code_simp
  have r: "route \<lparr>route = ApiPlayer 2, bearer = Some ''s3cret''\<rparr> = ApiPlayer 2 \<or>
           route \<lparr>route = ApiPlayer 2, bearer = Some ''s3cret''\<rparr> = ApiTeamPlayers 2"
    by simp
  show ?thesis
    using active_flag_not_in_response
            [OF r, where e = demo_env and f = "\<lambda>p. \<not> playerIsActive p" and now = 0] shown
    by blast
qed

section \<open>Game detail\<close>

text \<open>
  C3. \<^verbatim>\<open>GET /api/games/{gameId}\<close> resolves the game first. When no game has the
  identifier, the answer is 404 and the only repository call is the game lookup: the
  plays of that identifier are not asked for. When a game has it, the answer is 200 with
  that game and its plays, each once, in ascending order of period, then index; with no
  play recorded for the game the answer is still 200, with an empty list of plays.
  (Stated for lookups that do not raise.)
\<close>

theorem game_detail_resolves_game_first:
  assumes r: "route rq = ApiGameDetail game_id"
    and auth: "api_bearer_token e = Some secret" "bearer rq = Some secret"
    and ok: "\<not> raises (db e) (GetGameById game_id)"
  shows "(game_id \<notin> gameId ` set (tbl_games (db e)) \<longrightarrow>
            status_code (fst (serve e now rq)) = 404 \<and>
            snd (serve e now rq) = [GetGameById game_id]) \<and>
         (game_id \<in> gameId ` set (tbl_games (db e)) \<and> \<not> raises (db e) (GetPlaysByGame game_id) \<longrightarrow>
            (\<exists>game plays.
               game \<in> set (tbl_games (db e)) \<and> gameId game = game_id \<and>
               serve e now rq =
                 (ok_response (GameDetailResponse game plays),
                  [GetGameById game_id, GetPlaysByGame game_id]) \<and>
               sorted (map (\<lambda>p. (playPeriod p, playIndex p)) plays) \<and>
               mset plays = mset (filter (\<lambda>p. playGameId p = game_id) (tbl_plays (db e))) \<and>
               ((\<forall>p \<in> set (tbl_plays (db e)). playGameId p \<noteq> game_id) \<longrightarrow> plays = [])))"
proof -
  let ?found = "find (\<lambda>g. gameId g = game_id) (tbl_games (db e))"
  let ?mine = "filter (\<lambda>p. playGameId p = game_id) (tbl_plays (db e))"
  let ?plays = "sort_key (\<lambda>p. (playPeriod p, playIndex p)) ?mine"
  have lookup: "games_repo_get_game_by_id (db e) game_id = Inr ?found"
    using ok by (simp add: games_repo_get_game_by_id_def run_query_def)
  have "route rq \<noteq> Health"
    using r by simp
  then have s: "serve e now rq = respond (get_game_detail e game_id)"
    using r auth by (simp add: serve_authenticated validate_params_def endpoint_def)
  have absent: "status_code (fst (serve e now rq)) = 404 \<and> snd (serve e now rq) = [GetGameById game_id]"
    if "game_id \<notin> gameId ` set (tbl_games (db e))"
  proof -
    from that have "?found = None"
      by (auto simp: find_None_iff)
    then show ?thesis
      using s lookup by (simp add: get_game_detail_def respond_def exception_response_http)
  qed
  have present: "\<exists>game plays.
           game \<in> set (tbl_games (db e)) \<and> gameId game = game_id \<and>
           serve e now rq =
             (ok_response (GameDetailResponse game plays),
              [GetGameById game_id, GetPlaysByGame game_id]) \<and>
           sorted (map (\<lambda>p. (playPeriod p, playIndex p)) plays) \<and>
           mset plays = mset ?mine \<and>
           ((\<forall>p \<in> set (tbl_plays (db e)). playGameId p \<noteq> game_id) \<longrightarrow> plays = [])"
    if ex: "game_id \<in> gameId ` set (tbl_games (db e))"
      and up: "\<not> raises (db e) (GetPlaysByGame game_id)"
  proof -
    from ex have "?found \<noteq> None"
      by (auto simp: find_None_iff)
    then obtain game where found: "?found = Some game"
      by auto
    then have mem: "game \<in> set (tbl_games (db e))" and ident: "gameId game = game_id"
      by (auto simp: find_Some_iff)
    have fetch: "plays_repo_get_plays_by_game (db e) game_id = Inr ?plays"
      using up by (simp add: plays_repo_get_plays_by_game_def run_query_def)
    have answer: "serve e now rq =
        (ok_response (GameDetailResponse game ?plays), [GetGameById game_id, GetPlaysByGame game_id])"
      using s lookup found fetch by (simp add: get_game_detail_def respond_def)
    have ordered: "sorted (map (\<lambda>p. (playPeriod p, playIndex p)) ?plays)"
      by (rule sorted_sort_key)
    have same: "mset ?plays = mset ?mine"
      by simp
    have none: "?plays = []" if "\<forall>p \<in> set (tbl_plays (db e)). playGameId p \<noteq> game_id"
    proof -
      from that have "?mine = []"
        by (simp add: filter_empty_conv)
      then show ?thesis by simp
    qed
    show ?thesis
      using mem ident answer ordered same none
      by (intro exI [of _ game] exI [of _ ?plays]) auto
  qed
  show ?thesis
    using absent present by blast
qed

theorem game_detail_resolves_game_first_witness:
  "status_code (fst (serve demo_env 0 \<lparr>route = ApiGameDetail 99, bearer = Some ''s3cret''\<rparr>)) = 404 \<and>
   snd (serve demo_env 0 \<lparr>route = ApiGameDetail 99, bearer = Some ''s3cret''\<rparr>) = [GetGameById 99] \<and>
   serve demo_env 0 \<lparr>route = ApiGameDetail 1, bearer = Some ''s3cret''\<rparr> =
     (ok_response (GameDetailResponse (demo_game 1 (utc_seconds 2024 1 15 23) ''final'')
        [demo_play 101 1 1 3, demo_play 102 1 1 7, demo_play 103 1 2 1]),
      [GetGameById 1, GetPlaysByGame 1]) \<and>
   sorted (map (\<lambda>p. (playPeriod p, playIndex p))
     [demo_play 101 1 1 3, demo_play 102 1 1 7, demo_play 103 1 2 1]) \<and>
   serve demo_env 0 \<lparr>route = ApiGameDetail 2, bearer = Some ''s3cret''\<rparr> =
     (ok_response (GameDetailResponse (demo_game 2 (utc_seconds 2024 1 16 3) ''scheduled'') []),
      [GetGameById 2, GetPlaysByGame 2])"
proof -
  let ?g1 = "demo_game 1 (utc_seconds 2024 1 15 23) ''final''"
  let ?g2 = "demo_game 2 (utc_seconds 2024 1 16 3) ''scheduled''"
  let ?ps = "[demo_play 101 1 1 3, demo_play 102 1 1 7, demo_play 103 1 2 1]"
  have tok: "api_bearer_token demo_env = Some ''s3cret''"
    by (simp add: demo_env_def)
  have up: "\<not> raises (db demo_env) c" for c
    by (simp add: demo_env_def demo_store_def)
  have games: "tbl_games (db demo_env) = [?g2, ?g1]"
    by (simp add: demo_env_def demo_store_def)
  have ids: "gameId ?g1 = 1" "gameId ?g2 = 2"
    by (simp_all add: demo_game_def)
  have no99: "99 \<notin> gameId ` set (tbl_games (db demo_env))"
    unfolding games by (simp add: ids)
  have has1: "1 \<in> gameId ` set (tbl_games (db demo_env))"
    unfolding games by (simp add: ids)
  have has2: "2 \<in> gameId ` set (tbl_games (db demo_env))"
    unfolding games by (simp add: ids)
  have s1: "serve demo_env 0 \<lparr>route = ApiGameDetail 1, bearer = Some ''s3cret''\<rparr> =
              (ok_response (GameDetailResponse ?g1 ?ps), [GetGameById 1, GetPlaysByGame 1])"
    by code_simp
  have s2: "serve demo_env 0 \<lparr>route = ApiGameDetail 2, bearer = Some ''s3cret''\<rparr> =
              (ok_response (GameDetailResponse ?g2 []), [GetGameById 2, GetPlaysByGame 2])"
    by code_simp
  from game_detail_resolves_game_first
         [of "\<lparr>route = ApiGameDetail 99, bearer = Some ''s3cret''\<rparr>" 99 demo_env "''s3cret''" 0]
       tok up no99
  have a: "status_code (fst (serve demo_env 0 \<lparr>route = ApiGameDetail 99, bearer = Some ''s3cret''\<rparr>)) = 404 \<and>
           snd (serve demo_env 0 \<lparr>route = ApiGameDetail 99, bearer = Some ''s3cret''\<rparr>) = [GetGameById 99]"
    by simp
  from game_detail_resolves_game_first
         [of "\<lparr>route = ApiGameDetail 1, bearer = Some ''s3cret''\<rparr>" 1 demo_env "''s3cret''" 0]
       tok up has1
  obtain game plays where
    "serve demo_env 0 \<lparr>route = ApiGameDetail 1, bearer = Some ''s3cret''\<rparr> =
       (ok_response (GameDetailResponse game plays), [GetGameById 1, GetPlaysByGame 1])"
    "sorted (map (\<lambda>p. (playPeriod p, playIndex p)) plays)"
    by auto
  with s1 have b: "sorted (map (\<lambda>p. (playPeriod p, playIndex p)) ?ps)"
    by (simp add: ok_response_def)
  show ?thesis
    using a b s1 s2 by blast
qed

section \<open>Games of a civil day\<close>




section \<open>Repeating a request\<close>

text \<open>
  C8 fails as stated: a request to \<^verbatim>\<open>/api/games\<close> without a date is answered from
  the clock. The same request, with the same credential, against the same store, lists
  one game at noon of 2024-01-15 (UTC) and another a day later.
\<close>

theorem repeated_request_counterexample:
  "content (fst (serve demo_env (utc_seconds 2024 1 15 12)
      \<lparr>route = ApiGames None (Some ''UTC''), bearer = Some ''s3cret''\<rparr>)) =
     GameList [demo_game 1 (utc_seconds 2024 1 15 23) ''final''] \<and>
   content (fst (serve demo_env (utc_seconds 2024 1 16 12)
      \<lparr>route = ApiGames None (Some ''UTC''), bearer = Some ''s3cret''\<rparr>)) =
     GameList [demo_game 2 (utc_seconds 2024 1 16 3) ''scheduled''] \<and>
   serve demo_env (utc_seconds 2024 1 15 12)
      \<lparr>route = ApiGames None (Some ''UTC''), bearer = Some ''s3cret''\<rparr> \<noteq>
   serve demo_env (utc_seconds 2024 1 16 12)
      \<lparr>route = ApiGames None (Some ''UTC''), bearer = Some ''s3cret''\<rparr>"
  by code_simp

text \<open>
  C8, amended. Two requests with the same parameters and credential, against the same
  store and configuration, get the same response (and make the same repository calls),
  provided that, for \<^verbatim>\<open>/api/games\<close> without a date, the zone of the request shows
  the same civil date at both instants.
\<close>

theorem repeated_request_same_response:
  assumes same_day:
    "\<forall>tz z. route rq = ApiGames None tz \<and> tzdb e (timezone_param tz) = Some z \<longrightarrow>
       datetime_now z now1 = datetime_now z now2"
  shows "serve e now1 rq = serve e now2 rq"
proof -
  have "endpoint e now1 (route rq) = endpoint e now2 (route rq)"
  proof (cases "route rq")
    case (ApiGames date tz)
    show ?thesis
    proof (cases date)
      case None
      with ApiGames same_day show ?thesis
        by (auto simp: endpoint_def get_games_by_date_def pytz_timezone_def split: option.splits)
    next
      case (Some d)
      with ApiGames show ?thesis
        by (simp add: endpoint_def get_games_by_date_def pytz_timezone_def split: option.splits)
    qed
  qed (simp_all add: endpoint_def)
  then show ?thesis
    by (intro serve_cong) simp_all
qed

theorem repeated_request_same_response_witness:
  "serve demo_env (utc_seconds 2024 1 15 12)
      \<lparr>route = ApiGames None (Some ''UTC''), bearer = Some ''s3cret''\<rparr> =
   serve demo_env (utc_seconds 2024 1 15 23)
      \<lparr>route = ApiGames None (Some ''UTC''), bearer = Some ''s3cret''\<rparr> \<and>
   serve demo_env 0 \<lparr>route = ApiGameDetail 1, bearer = Some ''s3cret''\<rparr> =
   serve demo_env 86400 \<lparr>route = ApiGameDetail 1, bearer = Some ''s3cret''\<rparr>"
proof -
  have z: "tzdb demo_env (timezone_param (Some ''UTC'')) = Some \<lparr>base_offset = 0, transitions = []\<rparr>"
    by code_simp
  have d: "datetime_now \<lparr>base_offset = 0, transitions = []\<rparr> (utc_seconds 2024 1 15 12) =
           datetime_now \<lparr>base_offset = 0, transitions = []\<rparr> (utc_seconds 2024 1 15 23)"
    by code_simp
  have a: "serve demo_env (utc_seconds 2024 1 15 12)
             \<lparr>route = ApiGames None (Some ''UTC''), bearer = Some ''s3cret''\<rparr> =
           serve demo_env (utc_seconds 2024 1 15 23)
             \<lparr>route = ApiGames None (Some ''UTC''), bearer = Some ''s3cret''\<rparr>"
    using z d by (intro repeated_request_same_response) auto
  have b: "serve demo_env 0 \<lparr>route = ApiGameDetail 1, bearer = Some ''s3cret''\<rparr> =
           serve demo_env 86400 \<lparr>route = ApiGameDetail 1, bearer = Some ''s3cret''\<rparr>"
    by (intro repeated_request_same_response) simp
  show ?thesis
    using a b by blast
qed

end
